theory Spec2Isabelle
  imports Main
begin

section \<open>Chooser widgets of generic\_chooser/widgets.py\<close>

text \<open>
  The module defines two form widgets, \<^verbatim>\<open>AdminChooser\<close> and its subclass
  \<^verbatim>\<open>DRFChooser\<close>. Both turn the current value of a form field into the three
  fields a template needs: the value, a title and the URL of an edit view. The first finds
  the chosen object with a query of Django's ORM, the second with an HTTP GET on a REST API.

  The embedding follows the Python text method by method. What the methods call but the
  module does not define (the ORM, the HTTP client, Django's URL resolver, the
  \<^verbatim>\<open>__str__\<close> of an object) is a field of an environment record, so that every
  theorem holds for any database, any remote server and any URL configuration.
\<close>

subsection \<open>Python values\<close>

text \<open>
  A model class is known by its name and by the names of the concrete model classes it
  inherits from: \<^verbatim>\<open>isinstance\<close> and the \<^verbatim>\<open>except\<close> clause look at both.
\<close>

datatype model = Model (model_name: string) (model_bases: "string list")

text \<open>
  The values the widget handles: \<^verbatim>\<open>None\<close>, booleans, integers, strings, lists,
  dictionaries with string keys (an association list, in the order of the dictionary), and
  model instances, which carry their class and their primary key. What
  \<^verbatim>\<open>response.json()\<close> returns is built from the first six; JSON numbers with a
  fraction are left out.
\<close>

datatype pyvalue =
    PNone
  | PBool bool
  | PInt int
  | PStr string
  | PList "pyvalue list"
  | PDict "(string \<times> pyvalue) list"
  | PInstance model pyvalue

text \<open>
  The exceptions that can leave the methods. \<^verbatim>\<open>DoesNotExist m\<close> is the class
  \<^verbatim>\<open>m.DoesNotExist\<close>, a subclass of Django's \<^verbatim>\<open>ObjectDoesNotExist\<close>;
  \<^verbatim>\<open>ObjectDoesNotExist a\<close> is an instance of the base class itself, built with
  the argument \<^verbatim>\<open>a\<close>.
\<close>

datatype error =
    ObjectDoesNotExist pyvalue
  | DoesNotExist model
  | MultipleObjectsReturned model
  | AttributeError string
  | KeyError string
  | TypeError
  | ValueError
  | NoReverseMatch
  | RequestException string
  | JSONDecodeError
  | OtherError string

text \<open>The lookups a method performs, in the order it performs them.\<close>

datatype event =
    OrmGet model pyvalue
  | HttpGet string

text \<open>
  The environment: \<^verbatim>\<open>model.objects.get(pk=value)\<close>,
  \<^verbatim>\<open>requests.get(url).json()\<close>, \<^verbatim>\<open>reverse(name, args=...)\<close>, and
  \<^verbatim>\<open>str(obj)\<close> for an object that is neither \<^verbatim>\<open>None\<close> nor a boolean, an
  integer or a string.
\<close>

record env =
  objects_get :: "model \<Rightarrow> pyvalue \<Rightarrow> error + pyvalue"
  requests_get_json :: "string \<Rightarrow> error + pyvalue"
  reverse :: "string \<Rightarrow> pyvalue list \<Rightarrow> error + string"
  object_str :: "pyvalue \<Rightarrow> string"

subsection \<open>Built-in operations\<close>

text \<open>\<^verbatim>\<open>issubclass(c, m)\<close> for model classes, and \<^verbatim>\<open>isinstance(v, m)\<close>.\<close>

definition issubclass :: "model \<Rightarrow> model \<Rightarrow> bool" where
  "issubclass c m = (model_name c = model_name m \<or> model_name m \<in> set (model_bases c))"

fun isinstance :: "pyvalue \<Rightarrow> model \<Rightarrow> bool" where
  "isinstance (PInstance c k) m = issubclass c m"
| "isinstance v m = False"

text \<open>The attribute \<^verbatim>\<open>pk\<close>: only model instances have it.\<close>

fun py_pk :: "pyvalue \<Rightarrow> error + pyvalue" where
  "py_pk (PInstance c k) = Inr k"
| "py_pk v = Inl (AttributeError ''pk'')"

text \<open>\<^verbatim>\<open>str(n)\<close> for an integer: decimal digits, with a sign when negative.\<close>

fun digits :: "nat \<Rightarrow> string" where
  "digits n =
     (if n < 10 then [''0123456789'' ! n]
      else digits (n div 10) @ [''0123456789'' ! (n mod 10)])"

declare digits.simps [simp del]

definition str_int :: "int \<Rightarrow> string" where
  "str_int i = (if i < 0 then ''-'' @ digits (nat (- i)) else digits (nat i))"

text \<open>\<^verbatim>\<open>str(v)\<close>, which is also what \<^verbatim>\<open>'%s' % v\<close> inserts.\<close>

fun py_str :: "env \<Rightarrow> pyvalue \<Rightarrow> string" where
  "py_str e PNone = ''None''"
| "py_str e (PBool b) = (if b then ''True'' else ''False'')"
| "py_str e (PInt i) = str_int i"
| "py_str e (PStr s) = s"
| "py_str e v = object_str e v"

text \<open>\<^verbatim>\<open>key in s\<close> for two strings: \<^verbatim>\<open>key\<close> occurs in \<^verbatim>\<open>s\<close>.\<close>

fun occurs_in :: "string \<Rightarrow> string \<Rightarrow> bool" where
  "occurs_in k [] = (k = [])"
| "occurs_in k (c # cs) = (take (length k) (c # cs) = k \<or> occurs_in k cs)"

text \<open>
  \<^verbatim>\<open>key in v\<close> for a string \<^verbatim>\<open>key\<close>: a key of a dictionary, an element of a
  list, a substring of a string; any other value is not iterable.
\<close>

fun py_contains :: "string \<Rightarrow> pyvalue \<Rightarrow> error + bool" where
  "py_contains k (PDict d) = Inr (k \<in> set (map fst d))"
| "py_contains k (PList xs) = Inr (PStr k \<in> set xs)"
| "py_contains k (PStr s) = Inr (occurs_in k s)"
| "py_contains k v = Inl TypeError"

text \<open>
  \<^verbatim>\<open>v[key]\<close> for a string \<^verbatim>\<open>key\<close>: a dictionary gives the entry or raises
  \<^verbatim>\<open>KeyError\<close>; a list or a string takes integer indices only and the other values
  have no subscript, so they raise \<^verbatim>\<open>TypeError\<close>.
\<close>

fun py_getitem :: "pyvalue \<Rightarrow> string \<Rightarrow> error + pyvalue" where
  "py_getitem (PDict d) k = (case map_of d k of None \<Rightarrow> Inl (KeyError k) | Some v \<Rightarrow> Inr v)"
| "py_getitem v k = Inl TypeError"

subsection \<open>django.contrib.admin.utils.quote\<close>

text \<open>
  Django's \<^verbatim>\<open>quote\<close> replaces each of the characters
  \<^verbatim>\<open>" : / _ # ? ; @ & = + $ , [ ] < > %\<close>, the newline and the backslash by an
  underscore and the two upper-case hexadecimal digits of its code
  (\<^verbatim>\<open>'_%02X' % ord(c)\<close>), and returns a value that is not a string as it is.
\<close>

definition quote_chars :: "char list" where
  "quote_chars =
     [CHR 0x22, CHR '':'', CHR ''/'', CHR ''_'', CHR ''#'', CHR ''?'', CHR '';'', CHR ''@'',
      CHR ''&'', CHR ''='', CHR ''+'', CHR ''$'', CHR '','', CHR ''['', CHR '']'', CHR ''<'',
      CHR ''>'', CHR ''%'', CHR 0x0A, CHR 0x5C]"

definition hex_digit :: "nat \<Rightarrow> char" where
  "hex_digit n = ''0123456789ABCDEF'' ! n"

definition quote_char :: "char \<Rightarrow> string" where
  "quote_char c =
     (if c \<in> set quote_chars
      then [CHR ''_'', hex_digit (of_char c div 16), hex_digit (of_char c mod 16)]
      else [c])"

fun quote :: "pyvalue \<Rightarrow> pyvalue" where
  "quote (PStr s) = PStr (concat (map quote_char s))"
| "quote v = v"

subsection \<open>The widgets\<close>

datatype chooser_class = AdminChooser | DRFChooser

text \<open>
  A widget: its class and the class attributes the methods read. \<^verbatim>\<open>model\<close> and
  \<^verbatim>\<open>edit_item_url_name\<close> are \<^verbatim>\<open>None\<close> unless a subclass sets them;
  \<^verbatim>\<open>api_base_url\<close> is the attribute every concrete \<^verbatim>\<open>DRFChooser\<close> defines.
\<close>

record chooser =
  cls :: chooser_class
  model :: "model option"
  edit_item_url_name :: "string option"
  api_base_url :: string

text \<open>
  A method that performs lookups takes the trace of the lookups so far and returns its
  result, or the exception it raises, with the extended trace.
\<close>

type_synonym 'a traced = "event list \<Rightarrow> (error + 'a) \<times> event list"

text \<open>\<^verbatim>\<open>AdminChooser.get_instance\<close>: \<^verbatim>\<open>self.model.objects.get(pk=value)\<close>.\<close>

definition AdminChooser_get_instance :: "chooser \<Rightarrow> env \<Rightarrow> pyvalue \<Rightarrow> pyvalue traced" where
  "AdminChooser_get_instance w e v log =
     (case model w of
        None \<Rightarrow> (Inl (AttributeError ''objects''), log)
      | Some m \<Rightarrow> (objects_get e m v, log @ [OrmGet m v]))"

text \<open>The URL \<^verbatim>\<open>DRFChooser.get_instance\<close> requests.\<close>

definition DRFChooser_url :: "chooser \<Rightarrow> env \<Rightarrow> pyvalue \<Rightarrow> string" where
  "DRFChooser_url w e ident = api_base_url w @ py_str e (quote ident) @ ''/?format=json''"

text \<open>
  \<^verbatim>\<open>DRFChooser.get_instance\<close>: one GET; a result without \<^verbatim>\<open>'id'\<close> raises
  \<^verbatim>\<open>ObjectDoesNotExist(result['message'])\<close>.
\<close>

definition DRFChooser_get_instance :: "chooser \<Rightarrow> env \<Rightarrow> pyvalue \<Rightarrow> pyvalue traced" where
  "DRFChooser_get_instance w e ident log =
     (let url = DRFChooser_url w e ident;
          log' = log @ [HttpGet url]
      in case requests_get_json e url of
           Inl x \<Rightarrow> (Inl x, log')
         | Inr result \<Rightarrow>
             (case py_contains ''id'' result of
                Inl x \<Rightarrow> (Inl x, log')
              | Inr has_id \<Rightarrow>
                  if \<not> has_id then
                    (case py_getitem result ''message'' of
                       Inl x \<Rightarrow> (Inl x, log')
                     | Inr msg \<Rightarrow> (Inl (ObjectDoesNotExist msg), log'))
                  else (Inr result, log')))"

text \<open>\<^verbatim>\<open>self.get_instance\<close>: the method of the widget's class.\<close>

definition get_instance :: "chooser \<Rightarrow> env \<Rightarrow> pyvalue \<Rightarrow> pyvalue traced" where
  "get_instance w e v =
     (case cls w of
        AdminChooser \<Rightarrow> AdminChooser_get_instance w e v
      | DRFChooser \<Rightarrow> DRFChooser_get_instance w e v)"

text \<open>
  \<^verbatim>\<open>AdminChooser.get_edit_item_url\<close>: \<^verbatim>\<open>None\<close> without a route name, else the
  route reversed with the quoted primary key.
\<close>

definition AdminChooser_get_edit_item_url :: "chooser \<Rightarrow> env \<Rightarrow> pyvalue \<Rightarrow> error + pyvalue" where
  "AdminChooser_get_edit_item_url w e instance =
     (case edit_item_url_name w of
        None \<Rightarrow> Inr PNone
      | Some name \<Rightarrow>
          (case py_pk instance of
             Inl x \<Rightarrow> Inl x
           | Inr k \<Rightarrow>
               (case reverse e name [quote k] of
                  Inl x \<Rightarrow> Inl x
                | Inr url \<Rightarrow> Inr (PStr url))))"

text \<open>\<^verbatim>\<open>DRFChooser.get_edit_item_url\<close>: the same with \<^verbatim>\<open>instance['id']\<close>, not quoted.\<close>

definition DRFChooser_get_edit_item_url :: "chooser \<Rightarrow> env \<Rightarrow> pyvalue \<Rightarrow> error + pyvalue" where
  "DRFChooser_get_edit_item_url w e instance =
     (case edit_item_url_name w of
        None \<Rightarrow> Inr PNone
      | Some name \<Rightarrow>
          (case py_getitem instance ''id'' of
             Inl x \<Rightarrow> Inl x
           | Inr k \<Rightarrow>
               (case reverse e name [k] of
                  Inl x \<Rightarrow> Inl x
                | Inr url \<Rightarrow> Inr (PStr url))))"

definition get_edit_item_url :: "chooser \<Rightarrow> env \<Rightarrow> pyvalue \<Rightarrow> error + pyvalue" where
  "get_edit_item_url w e instance =
     (case cls w of
        AdminChooser \<Rightarrow> AdminChooser_get_edit_item_url w e instance
      | DRFChooser \<Rightarrow> DRFChooser_get_edit_item_url w e instance)"

text \<open>\<^verbatim>\<open>get_title\<close>: \<^verbatim>\<open>str(instance)\<close>.\<close>

definition get_title :: "env \<Rightarrow> pyvalue \<Rightarrow> string" where
  "get_title e instance = py_str e instance"

text \<open>
  \<^verbatim>\<open>value_from_datadict\<close>. The inherited method is Django's
  \<^verbatim>\<open>Widget.value_from_datadict\<close>, which is \<^verbatim>\<open>data.get(name)\<close>; the files are
  not read.
\<close>

definition Widget_value_from_datadict ::
  "(string \<rightharpoonup> pyvalue) \<Rightarrow> (string \<rightharpoonup> pyvalue) \<Rightarrow> string \<Rightarrow> pyvalue" where
  "Widget_value_from_datadict data files name =
     (case data name of None \<Rightarrow> PNone | Some v \<Rightarrow> v)"

definition value_from_datadict ::
  "(string \<rightharpoonup> pyvalue) \<Rightarrow> (string \<rightharpoonup> pyvalue) \<Rightarrow> string \<Rightarrow> pyvalue" where
  "value_from_datadict data files name =
     (let result = Widget_value_from_datadict data files name
      in if result = PStr '''' then PNone else result)"

subsection \<open>get\_value\_data\<close>

text \<open>
  The guard of the second branch, \<^verbatim>\<open>self.model and isinstance(value, self.model)\<close>.
\<close>

definition is_model_instance :: "chooser \<Rightarrow> pyvalue \<Rightarrow> bool" where
  "is_model_instance w v = (case model w of None \<Rightarrow> False | Some m \<Rightarrow> isinstance v m)"

text \<open>
  The \<^verbatim>\<open>except\<close> clause: \<^verbatim>\<open>ObjectDoesNotExist\<close> and its subclasses when no
  model is configured, the model's own \<^verbatim>\<open>DoesNotExist\<close> and its subclasses
  otherwise.
\<close>

fun except_matches :: "model option \<Rightarrow> error \<Rightarrow> bool" where
  "except_matches None (ObjectDoesNotExist a) = True"
| "except_matches None (DoesNotExist c) = True"
| "except_matches (Some m) (DoesNotExist c) = issubclass c m"
| "except_matches mo x = False"

text \<open>
  \<^verbatim>\<open>isinstance(x, ObjectDoesNotExist)\<close>: the base class and the
  \<^verbatim>\<open>DoesNotExist\<close> of every model. No other exception class is a subclass of it.
\<close>

fun is_ObjectDoesNotExist :: "error \<Rightarrow> bool" where
  "is_ObjectDoesNotExist (ObjectDoesNotExist a) = True"
| "is_ObjectDoesNotExist (DoesNotExist c) = True"
| "is_ObjectDoesNotExist x = False"

text \<open>The dictionary returned when there is no instance.\<close>

definition empty_selection :: pyvalue where
  "empty_selection = PDict [(''value'', PNone), (''title'', PStr ''''), (''edit_item_url'', PNone)]"

text \<open>
  The second half of the method, from \<^verbatim>\<open>if instance is None\<close>. The dictionary
  display evaluates \<^verbatim>\<open>get_title\<close> before \<^verbatim>\<open>get_edit_item_url\<close>.
\<close>

definition value_data_of :: "chooser \<Rightarrow> env \<Rightarrow> pyvalue \<Rightarrow> pyvalue \<Rightarrow> error + pyvalue" where
  "value_data_of w e instance v =
     (if instance = PNone then Inr empty_selection
      else
        (let title = get_title e instance
         in case get_edit_item_url w e instance of
              Inl x \<Rightarrow> Inl x
            | Inr url \<Rightarrow>
                Inr (PDict [(''value'', v), (''title'', PStr title), (''edit_item_url'', url)])))"

definition get_value_data :: "chooser \<Rightarrow> env \<Rightarrow> pyvalue \<Rightarrow> pyvalue traced" where
  "get_value_data w e v log =
     (if v = PNone then (value_data_of w e PNone v, log)
      else if is_model_instance w v then
        (case py_pk v of
           Inl x \<Rightarrow> (Inl x, log)
         | Inr k \<Rightarrow> (value_data_of w e v k, log))
      else
        (case get_instance w e v log of
           (Inr instance, log') \<Rightarrow> (value_data_of w e instance v, log')
         | (Inl x, log') \<Rightarrow>
             if except_matches (model w) x then (value_data_of w e PNone v, log')
             else (Inl x, log')))"

subsection \<open>A sample configuration\<close>

text \<open>
  A database, a remote API and a URL configuration on which the definitions are evaluated.
  The model \<^verbatim>\<open>Country\<close> has a string primary key and a \<^verbatim>\<open>__str__\<close> that
  returns it (an unsaved instance prints as \<^verbatim>\<open>Country object (None)\<close>); the table
  holds the single row \<^verbatim>\<open>FR\<close>, and a lookup by an instance searches for the text of
  the instance, as Django does for a character field. The API knows item 7, answers item 8
  with a \<^verbatim>\<open>message\<close>, item 9 with a \<^verbatim>\<open>detail\<close>, item 10 with a body
  that is not JSON, and refuses every other connection.
\<close>

definition ex_country :: model where
  "ex_country = Model ''Country'' []"

fun ex_object_str :: "pyvalue \<Rightarrow> string" where
  "ex_object_str (PInstance c (PStr s)) = s"
| "ex_object_str (PInstance c k) = model_name c @ '' object (None)''"
| "ex_object_str v = ''<object>''"

definition ex_objects_get :: "model \<Rightarrow> pyvalue \<Rightarrow> error + pyvalue" where
  "ex_objects_get m v =
     (if v = PStr ''FR'' \<or> ex_object_str v = ''FR'' then Inr (PInstance m (PStr ''FR''))
      else Inl (DoesNotExist m))"

definition ex_requests_get_json :: "string \<Rightarrow> error + pyvalue" where
  "ex_requests_get_json url =
     (if url = ''http://api.example/items/7/?format=json''
      then Inr (PDict [(''id'', PInt 7), (''title'', PStr ''Seven'')])
      else if url = ''http://api.example/items/8/?format=json''
      then Inr (PDict [(''message'', PStr ''No item matches'')])
      else if url = ''http://api.example/items/9/?format=json''
      then Inr (PDict [(''detail'', PStr ''Not found.'')])
      else if url = ''http://api.example/items/10/?format=json''
      then Inl JSONDecodeError
      else Inl (RequestException ''connection refused''))"

fun ex_reverse :: "string \<Rightarrow> pyvalue list \<Rightarrow> error + string" where
  "ex_reverse name [PStr s] =
     (if name = ''country_edit'' then Inr (''/countries/'' @ s @ ''/edit/'') else Inl NoReverseMatch)"
| "ex_reverse name args = Inl NoReverseMatch"

definition ex_env :: env where
  "ex_env = \<lparr>objects_get = ex_objects_get, requests_get_json = ex_requests_get_json,
             reverse = ex_reverse, object_str = ex_object_str\<rparr>"

definition ex_admin :: chooser where
  "ex_admin = \<lparr>cls = AdminChooser, model = Some ex_country,
               edit_item_url_name = Some ''country_edit'', api_base_url = ''''\<rparr>"

definition ex_admin_plain :: chooser where
  "ex_admin_plain = \<lparr>cls = AdminChooser, model = Some ex_country,
                     edit_item_url_name = None, api_base_url = ''''\<rparr>"

definition ex_admin_no_model :: chooser where
  "ex_admin_no_model = \<lparr>cls = AdminChooser, model = None,
                        edit_item_url_name = None, api_base_url = ''''\<rparr>"

definition ex_drf :: chooser where
  "ex_drf = \<lparr>cls = DRFChooser, model = None, edit_item_url_name = None,
             api_base_url = ''http://api.example/items/''\<rparr>"

lemmas ex_defs = ex_country_def ex_objects_get_def ex_requests_get_json_def ex_env_def
  ex_admin_def ex_admin_plain_def ex_admin_no_model_def ex_drf_def

section \<open>Properties\<close>

subsection \<open>Auxiliary facts\<close>

lemma value_data_of_None: "value_data_of w e PNone v = Inr empty_selection"
  by (simp add: value_data_of_def)

lemma value_data_of_instance:
  "instance \<noteq> PNone \<Longrightarrow> get_edit_item_url w e instance = Inr url \<Longrightarrow>
   value_data_of w e instance v =
     Inr (PDict [(''value'', v), (''title'', PStr (get_title e instance)), (''edit_item_url'', url)])"
  by (simp add: value_data_of_def)

lemma value_data_of_shape:
  assumes "value_data_of w e instance a = Inr p"
  shows "(instance = PNone \<and> p = empty_selection)
         \<or> (instance \<noteq> PNone \<and>
             (\<exists>u. p = PDict [(''value'', a), (''title'', PStr (get_title e instance)),
                              (''edit_item_url'', u)]))"
  using assms by (auto simp: value_data_of_def split: if_splits sum.splits)

text \<open>The third branch of \<^verbatim>\<open>get_value_data\<close>: the \<^verbatim>\<open>try\<close> block.\<close>

lemma get_value_data_lookup:
  "v \<noteq> PNone \<Longrightarrow> \<not> is_model_instance w v \<Longrightarrow>
   get_value_data w e v log =
     (case get_instance w e v log of
        (Inr instance, log') \<Rightarrow> (value_data_of w e instance v, log')
      | (Inl x, log') \<Rightarrow>
          if except_matches (model w) x then (value_data_of w e PNone v, log')
          else (Inl x, log'))"
  by (simp add: get_value_data_def)

lemma edit_item_url_None_iff:
  "get_edit_item_url w e instance = Inr url \<Longrightarrow> (url = PNone) = (edit_item_url_name w = None)"
  by (auto simp: get_edit_item_url_def AdminChooser_get_edit_item_url_def
      DRFChooser_get_edit_item_url_def split: chooser_class.splits option.splits sum.splits)

lemma DRFChooser_get_instance_trace:
  "snd (DRFChooser_get_instance w e ident log) = log @ [HttpGet (DRFChooser_url w e ident)]"
  by (simp add: DRFChooser_get_instance_def Let_def split: sum.splits)

lemma DRFChooser_get_instance_failure:
  "requests_get_json e (DRFChooser_url w e ident) = Inl x \<Longrightarrow>
   DRFChooser_get_instance w e ident log = (Inl x, log @ [HttpGet (DRFChooser_url w e ident)])"
  by (simp add: DRFChooser_get_instance_def Let_def)

lemma DRFChooser_get_instance_message:
  assumes "requests_get_json e (DRFChooser_url w e ident) = Inr (PDict d)"
    and "''id'' \<notin> set (map fst d)" and "map_of d ''message'' = Some msg"
  shows "DRFChooser_get_instance w e ident log =
    (Inl (ObjectDoesNotExist msg), log @ [HttpGet (DRFChooser_url w e ident)])"
  using assms by (simp add: DRFChooser_get_instance_def Let_def)

text \<open>
  For the REST widget, \<^verbatim>\<open>get_value_data\<close> calls \<^verbatim>\<open>get_instance\<close>, and so sends a
  request, exactly when the value is neither \<^verbatim>\<open>None\<close> nor an instance of the configured
  model; the trace shows it.
\<close>

lemma DRFChooser_request_iff:
  assumes "cls w = DRFChooser"
  shows "snd (get_value_data w e v log) =
    (if v \<noteq> PNone \<and> \<not> is_model_instance w v then log @ [HttpGet (DRFChooser_url w e v)] else log)"
proof (cases "v \<noteq> PNone \<and> \<not> is_model_instance w v")
  case True
  have "snd (get_instance w e v log) = log @ [HttpGet (DRFChooser_url w e v)]"
    using assms by (simp add: get_instance_def DRFChooser_get_instance_trace)
  with True show ?thesis
    by (auto simp: get_value_data_lookup split: prod.splits sum.splits)
next
  case False
  then show ?thesis
    by (auto simp: get_value_data_def split: sum.splits)
qed

text \<open>
  \<^verbatim>\<open>quote\<close> lengthens a string by two characters for each character it escapes, so it
  leaves a string as it is exactly when the string has none of these characters.
\<close>

lemma length_quote_char:
  "length (quote_char c) = (if c \<in> set quote_chars then 3 else 1)"
  by (simp add: quote_char_def)

lemma length_quoted:
  "length (concat (map quote_char s)) =
     length s + 2 * length (filter (\<lambda>c. c \<in> set quote_chars) s)"
  by (induction s) (simp_all add: length_quote_char)

lemma quoted_eq_iff:
  "(concat (map quote_char s) = s) = (set s \<inter> set quote_chars = {})"
proof
  assume "concat (map quote_char s) = s"
  then have "length (concat (map quote_char s)) = length s" by simp
  then have "filter (\<lambda>c. c \<in> set quote_chars) s = []"
    by (simp add: length_quoted)
  then show "set s \<inter> set quote_chars = {}"
    by (auto simp: filter_empty_conv)
next
  assume "set s \<inter> set quote_chars = {}"
  then show "concat (map quote_char s) = s"
    by (induction s) (auto simp: quote_char_def)
qed

text \<open>The \<^verbatim>\<open>except\<close> clause catches nothing but \<^verbatim>\<open>ObjectDoesNotExist\<close> and its subclasses.\<close>

lemma except_matches_is_ObjectDoesNotExist:
  "except_matches mo x \<Longrightarrow> is_ObjectDoesNotExist x"
  by (cases mo; cases x) simp_all

text \<open>
  A \<^verbatim>\<open>DRFChooser\<close> with no model configured turns an answer that is a JSON object with
  a \<^verbatim>\<open>message\<close> and without an \<^verbatim>\<open>id\<close> into the empty selection.
\<close>

lemma DRFChooser_message_without_id_gives_empty_selection:
  assumes "cls w = DRFChooser"
    and "model w = None"
    and "requests_get_json e (DRFChooser_url w e v) = Inr (PDict d)"
    and "''id'' \<notin> set (map fst d)"
    and "''message'' \<in> set (map fst d)"
  shows "fst (get_value_data w e v log) = Inr empty_selection"
proof -
  from assms(5) obtain msg where msg: "map_of d ''message'' = Some msg"
    by (cases "map_of d ''message''") (auto simp: map_of_eq_None_iff)
  have raised: "get_instance w e v log =
      (Inl (ObjectDoesNotExist msg), log @ [HttpGet (DRFChooser_url w e v)])"
    using assms(1) DRFChooser_get_instance_message [OF assms(3,4) msg]
    by (simp add: get_instance_def)
  have "\<not> is_model_instance w v"
    using assms(2) by (simp add: is_model_instance_def)
  moreover have "except_matches (model w) (ObjectDoesNotExist msg)"
    using assms(2) by simp
  ultimately show ?thesis
    using raised by (cases "v = PNone")
      (simp_all add: get_value_data_def value_data_of_None)
qed

subsection \<open>Not found becomes the empty selection\<close>

text \<open>
  Claim C1, as amended. For every value that is not an instance of the configured model: if
  \<^verbatim>\<open>get_instance\<close> raises the exception the \<^verbatim>\<open>except\<close> clause names (the
  model's \<^verbatim>\<open>DoesNotExist\<close> when a model is configured, \<^verbatim>\<open>ObjectDoesNotExist\<close>
  when none is), \<^verbatim>\<open>get_value_data\<close> returns the empty selection
  \<^verbatim>\<open>{'value': None, 'title': '', 'edit_item_url': None}\<close> and does not raise.
\<close>

theorem not_found_gives_empty_selection:
  assumes "\<not> is_model_instance w v"
    and "get_instance w e v log = (Inl x, log')"
    and "except_matches (model w) x"
  shows "fst (get_value_data w e v log) = Inr empty_selection"
proof (cases "v = PNone")
  case True
  then show ?thesis by (simp add: get_value_data_def value_data_of_None)
next
  case False
  with assms show ?thesis by (simp add: get_value_data_lookup value_data_of_None)
qed

text \<open>The REST widget on item 8, which the API reports as missing.\<close>

theorem not_found_gives_empty_selection_witness:
  "\<not> is_model_instance ex_drf (PInt 8)
   \<and> get_instance ex_drf ex_env (PInt 8) [] =
       (Inl (ObjectDoesNotExist (PStr ''No item matches'')),
        [HttpGet ''http://api.example/items/8/?format=json''])
   \<and> except_matches (model ex_drf) (ObjectDoesNotExist (PStr ''No item matches''))
   \<and> fst (get_value_data ex_drf ex_env (PInt 8) []) = Inr empty_selection"
proof -
  have h1: "\<not> is_model_instance ex_drf (PInt 8)"
    by (simp add: is_model_instance_def ex_drf_def)
  have h2: "get_instance ex_drf ex_env (PInt 8) [] =
      (Inl (ObjectDoesNotExist (PStr ''No item matches'')),
       [HttpGet ''http://api.example/items/8/?format=json''])"
    by (simp add: get_instance_def DRFChooser_get_instance_def DRFChooser_url_def
        str_int_def digits.simps ex_drf_def ex_env_def ex_requests_get_json_def)
  have h3: "except_matches (model ex_drf) (ObjectDoesNotExist (PStr ''No item matches''))"
    by (simp add: ex_drf_def)
  from not_found_gives_empty_selection [OF h1 h2 h3] h1 h2 h3 show ?thesis by simp
qed

text \<open>
  Without the restriction the statement fails. The value is a \<^verbatim>\<open>Country\<close> instance
  whose row is gone: \<^verbatim>\<open>get_instance\<close> on it raises \<^verbatim>\<open>Country.DoesNotExist\<close>,
  but \<^verbatim>\<open>get_value_data\<close> takes its second branch, never calls \<^verbatim>\<open>get_instance\<close>
  and describes the instance it was given.
\<close>

theorem instance_value_not_looked_up_counterexample:
  "get_instance ex_admin ex_env (PInstance ex_country (PStr ''XX'')) [] =
     (Inl (DoesNotExist ex_country), [OrmGet ex_country (PInstance ex_country (PStr ''XX''))])
   \<and> except_matches (model ex_admin) (DoesNotExist ex_country)
   \<and> fst (get_value_data ex_admin ex_env (PInstance ex_country (PStr ''XX'')) []) =
       Inr (PDict [(''value'', PStr ''XX''), (''title'', PStr ''XX''),
                   (''edit_item_url'', PStr ''/countries/XX/edit/'')])
   \<and> fst (get_value_data ex_admin ex_env (PInstance ex_country (PStr ''XX'')) []) \<noteq>
       Inr empty_selection"
  by (simp add: get_instance_def AdminChooser_get_instance_def get_value_data_def
      is_model_instance_def issubclass_def value_data_of_def get_title_def
      get_edit_item_url_def AdminChooser_get_edit_item_url_def empty_selection_def
      quote_char_def quote_chars_def ex_defs)

subsection \<open>A found instance gives a populated dictionary\<close>

text \<open>
  Claim C2, as amended. For every value that is neither \<^verbatim>\<open>None\<close> nor an instance of
  the configured model, for which \<^verbatim>\<open>get_instance\<close> returns an instance and
  \<^verbatim>\<open>get_edit_item_url\<close> of that instance returns: \<^verbatim>\<open>get_value_data\<close> returns
  the dictionary whose \<^verbatim>\<open>value\<close> is the value given, whose \<^verbatim>\<open>title\<close> is
  \<^verbatim>\<open>get_title(instance)\<close>, which is \<^verbatim>\<open>str(instance)\<close>, and whose
  \<^verbatim>\<open>edit_item_url\<close> is \<^verbatim>\<open>get_edit_item_url(instance)\<close>; that URL is
  \<^verbatim>\<open>None\<close> exactly when \<^verbatim>\<open>edit_item_url_name\<close> is \<^verbatim>\<open>None\<close>.
\<close>

theorem found_gives_populated_value_data:
  assumes "v \<noteq> PNone"
    and "\<not> is_model_instance w v"
    and "get_instance w e v log = (Inr instance, log')"
    and "instance \<noteq> PNone"
    and "get_edit_item_url w e instance = Inr url"
  shows "get_value_data w e v log =
           (Inr (PDict [(''value'', v), (''title'', PStr (get_title e instance)),
                        (''edit_item_url'', url)]), log')
         \<and> get_title e instance = py_str e instance
         \<and> (url = PNone) = (edit_item_url_name w = None)"
proof -
  have "get_value_data w e v log = (value_data_of w e instance v, log')"
    using assms(1-3) by (simp add: get_value_data_lookup)
  moreover have "value_data_of w e instance v =
      Inr (PDict [(''value'', v), (''title'', PStr (get_title e instance)),
                  (''edit_item_url'', url)])"
    using assms(4,5) by (rule value_data_of_instance)
  moreover have "(url = PNone) = (edit_item_url_name w = None)"
    using assms(5) by (rule edit_item_url_None_iff)
  ultimately show ?thesis by (simp add: get_title_def)
qed

text \<open>The ORM widget on the primary key \<^verbatim>\<open>FR\<close>.\<close>

theorem found_gives_populated_value_data_witness:
  "PStr ''FR'' \<noteq> PNone
   \<and> \<not> is_model_instance ex_admin (PStr ''FR'')
   \<and> get_instance ex_admin ex_env (PStr ''FR'') [] =
       (Inr (PInstance ex_country (PStr ''FR'')), [OrmGet ex_country (PStr ''FR'')])
   \<and> PInstance ex_country (PStr ''FR'') \<noteq> PNone
   \<and> get_edit_item_url ex_admin ex_env (PInstance ex_country (PStr ''FR'')) =
       Inr (PStr ''/countries/FR/edit/'')
   \<and> get_value_data ex_admin ex_env (PStr ''FR'') [] =
       (Inr (PDict [(''value'', PStr ''FR''), (''title'', PStr ''FR''),
                    (''edit_item_url'', PStr ''/countries/FR/edit/'')]),
        [OrmGet ex_country (PStr ''FR'')])
   \<and> PStr ''/countries/FR/edit/'' \<noteq> PNone
   \<and> edit_item_url_name ex_admin \<noteq> None"
proof -
  have h1: "PStr ''FR'' \<noteq> PNone" by simp
  have h2: "\<not> is_model_instance ex_admin (PStr ''FR'')"
    by (simp add: is_model_instance_def ex_admin_def)
  have h3: "get_instance ex_admin ex_env (PStr ''FR'') [] =
      (Inr (PInstance ex_country (PStr ''FR'')), [OrmGet ex_country (PStr ''FR'')])"
    by (simp add: get_instance_def AdminChooser_get_instance_def ex_admin_def ex_env_def
        ex_objects_get_def)
  have h4: "PInstance ex_country (PStr ''FR'') \<noteq> PNone" by simp
  have h5: "get_edit_item_url ex_admin ex_env (PInstance ex_country (PStr ''FR'')) =
      Inr (PStr ''/countries/FR/edit/'')"
    by (simp add: get_edit_item_url_def AdminChooser_get_edit_item_url_def ex_admin_def
        ex_env_def quote_char_def quote_chars_def)
  have t: "get_title ex_env (PInstance ex_country (PStr ''FR'')) = ''FR''"
    by (simp add: get_title_def ex_env_def)
  from found_gives_populated_value_data [OF h1 h2 h3 h4 h5] h1 h2 h3 h4 h5 t
  show ?thesis by (simp add: ex_admin_def)
qed

text \<open>
  Without the restriction the statement fails. The value is the \<^verbatim>\<open>Country\<close>
  instance \<^verbatim>\<open>FR\<close>: \<^verbatim>\<open>get_instance\<close> on it returns an instance, but the
  \<^verbatim>\<open>value\<close> of the dictionary is the primary key \<^verbatim>\<open>'FR'\<close>, not the instance
  that was given.
\<close>

theorem instance_value_replaced_by_pk_counterexample:
  "PInstance ex_country (PStr ''FR'') \<noteq> PNone
   \<and> get_instance ex_admin ex_env (PInstance ex_country (PStr ''FR'')) [] =
       (Inr (PInstance ex_country (PStr ''FR'')),
        [OrmGet ex_country (PInstance ex_country (PStr ''FR''))])
   \<and> get_value_data ex_admin ex_env (PInstance ex_country (PStr ''FR'')) [] =
       (Inr (PDict [(''value'', PStr ''FR''), (''title'', PStr ''FR''),
                    (''edit_item_url'', PStr ''/countries/FR/edit/'')]), [])
   \<and> PStr ''FR'' \<noteq> PInstance ex_country (PStr ''FR'')"
  by (simp add: get_instance_def AdminChooser_get_instance_def get_value_data_def
      is_model_instance_def issubclass_def value_data_of_def get_title_def
      get_edit_item_url_def AdminChooser_get_edit_item_url_def
      quote_char_def quote_chars_def ex_defs)

subsection \<open>A response without an id\<close>

text \<open>
  Claim C3. Every answer of the API without an \<^verbatim>\<open>id\<close> field is to be taken as a
  not-found report, whether or not it has a \<^verbatim>\<open>message\<close> field, and
  \<^verbatim>\<open>get_value_data\<close> is to return the empty selection; the comment in
  \<^verbatim>\<open>DRFChooser.get_instance\<close> says the same. The code misses it: the exception is
  built from \<^verbatim>\<open>result['message']\<close>, so for the answer
  \<^verbatim>\<open>{"detail": "Not found."}\<close>, which is what Django REST Framework sends with a
  404, the subscript raises \<^verbatim>\<open>KeyError\<close>, the \<^verbatim>\<open>except\<close> clause
  does not name it, and \<^verbatim>\<open>get_value_data\<close> raises it. The theorem evaluates the
  code on that answer.
\<close>

theorem DRFChooser_missing_message_raises_KeyError:
  "requests_get_json ex_env (DRFChooser_url ex_drf ex_env (PInt 9)) =
     Inr (PDict [(''detail'', PStr ''Not found.'')])
   \<and> py_contains ''id'' (PDict [(''detail'', PStr ''Not found.'')]) = Inr False
   \<and> get_value_data ex_drf ex_env (PInt 9) [] =
       (Inl (KeyError ''message''), [HttpGet ''http://api.example/items/9/?format=json''])
   \<and> fst (get_value_data ex_drf ex_env (PInt 9) []) \<noteq> Inr empty_selection"
  by (simp add: get_value_data_def is_model_instance_def get_instance_def
      DRFChooser_get_instance_def DRFChooser_url_def str_int_def digits.simps ex_defs)

subsection \<open>The URL of the request\<close>

text \<open>
  Claim C4, as amended. \<^verbatim>\<open>DRFChooser.get_instance\<close> issues exactly one GET, whatever
  the answer, and its URL is \<^verbatim>\<open>api_base_url\<close>, then the text of
  \<^verbatim>\<open>quote(id)\<close>, then \<^verbatim>\<open>/?format=json\<close>. For a string id that text is
  the id with each character of \<^verbatim>\<open>quote_chars\<close> escaped, and the URL is the plain
  concatenation of \<^verbatim>\<open>api_base_url\<close>, the id and \<^verbatim>\<open>/?format=json\<close> if and
  only if the id has none of these characters. An id that is not a string is inserted as
  \<^verbatim>\<open>str(id)\<close>.
\<close>

theorem DRFChooser_requests_quoted_url:
  "snd (DRFChooser_get_instance w e ident log) =
     log @ [HttpGet (api_base_url w @ py_str e (quote ident) @ ''/?format=json'')]
   \<and> (\<forall>s. ident = PStr s \<longrightarrow>
         py_str e (quote ident) = concat (map quote_char s)
         \<and> (snd (DRFChooser_get_instance w e ident log) =
              log @ [HttpGet (api_base_url w @ s @ ''/?format=json'')])
           = (set s \<inter> set quote_chars = {}))
   \<and> ((\<forall>s. ident \<noteq> PStr s) \<longrightarrow>
         snd (DRFChooser_get_instance w e ident log) =
           log @ [HttpGet (api_base_url w @ py_str e ident @ ''/?format=json'')])"
proof -
  have url: "snd (DRFChooser_get_instance w e ident log) =
      log @ [HttpGet (api_base_url w @ py_str e (quote ident) @ ''/?format=json'')]"
    by (simp add: DRFChooser_get_instance_trace DRFChooser_url_def)
  have str: "\<forall>s. ident = PStr s \<longrightarrow>
         py_str e (quote ident) = concat (map quote_char s)
         \<and> (snd (DRFChooser_get_instance w e ident log) =
              log @ [HttpGet (api_base_url w @ s @ ''/?format=json'')])
           = (set s \<inter> set quote_chars = {})"
    by (simp add: DRFChooser_get_instance_trace DRFChooser_url_def quoted_eq_iff)
  have other: "(\<forall>s. ident \<noteq> PStr s) \<longrightarrow>
         snd (DRFChooser_get_instance w e ident log) =
           log @ [HttpGet (api_base_url w @ py_str e ident @ ''/?format=json'')]"
    unfolding url by (cases ident) simp_all
  from url str other show ?thesis by blast
qed

text \<open>The ids \<^verbatim>\<open>a/b\<close>, \<^verbatim>\<open>FR\<close> and 7.\<close>

theorem DRFChooser_requests_quoted_url_witness:
  "snd (DRFChooser_get_instance ex_drf ex_env (PStr ''a/b'') []) =
     [HttpGet ''http://api.example/items/a_2Fb/?format=json'']
   \<and> set ''a/b'' \<inter> set quote_chars \<noteq> {}
   \<and> snd (DRFChooser_get_instance ex_drf ex_env (PStr ''a/b'') []) \<noteq>
       [HttpGet (api_base_url ex_drf @ ''a/b'' @ ''/?format=json'')]
   \<and> set ''FR'' \<inter> set quote_chars = {}
   \<and> snd (DRFChooser_get_instance ex_drf ex_env (PStr ''FR'') []) =
       [HttpGet (api_base_url ex_drf @ ''FR'' @ ''/?format=json'')]
   \<and> snd (DRFChooser_get_instance ex_drf ex_env (PInt 7) []) =
       [HttpGet ''http://api.example/items/7/?format=json'']"
proof -
  have b: "api_base_url ex_drf = ''http://api.example/items/''"
    by (simp add: ex_drf_def)
  have q: "concat (map quote_char ''a/b'') = ''a_2Fb''"
    by (simp add: quote_char_def quote_chars_def hex_digit_def)
  have h1: "set ''a/b'' \<inter> set quote_chars \<noteq> {}"
    by (simp add: quote_chars_def)
  have h2: "set ''FR'' \<inter> set quote_chars = {}"
    by (simp add: quote_chars_def)
  have h3: "\<forall>s. PInt 7 \<noteq> PStr s" by simp
  have t: "py_str ex_env (PInt 7) = ''7''"
    by (simp add: str_int_def digits.simps)
  from DRFChooser_requests_quoted_url [of ex_drf ex_env "PStr ''a/b''" "[]"] h1 q b
  have c1: "snd (DRFChooser_get_instance ex_drf ex_env (PStr ''a/b'') []) =
        [HttpGet ''http://api.example/items/a_2Fb/?format=json'']"
    and c2: "snd (DRFChooser_get_instance ex_drf ex_env (PStr ''a/b'') []) \<noteq>
        [HttpGet (api_base_url ex_drf @ ''a/b'' @ ''/?format=json'')]"
    by simp_all
  from DRFChooser_requests_quoted_url [of ex_drf ex_env "PStr ''FR''" "[]",
      THEN conjunct2, THEN conjunct1, rule_format, OF refl, THEN conjunct2] h2
  have "snd (DRFChooser_get_instance ex_drf ex_env (PStr ''FR'') []) =
        [] @ [HttpGet (api_base_url ex_drf @ ''FR'' @ ''/?format=json'')]"
    by (rule iffD2)
  then have c3: "snd (DRFChooser_get_instance ex_drf ex_env (PStr ''FR'') []) =
        [HttpGet (api_base_url ex_drf @ ''FR'' @ ''/?format=json'')]"
    by (simp only: append_Nil)
  from DRFChooser_requests_quoted_url [of ex_drf ex_env "PInt 7" "[]"] h3 t b
  have c4: "snd (DRFChooser_get_instance ex_drf ex_env (PInt 7) []) =
        [HttpGet ''http://api.example/items/7/?format=json'']"
    by simp
  show ?thesis
    by (intro conjI) (rule c1 h1 c2 h2 c3 c4)+
qed

text \<open>
  The id is not inserted as it is: for the id \<^verbatim>\<open>a/b\<close> the slash is escaped and the
  request goes to \<^verbatim>\<open>.../a_2Fb/?format=json\<close>.
\<close>

theorem DRFChooser_unquoted_url_counterexample:
  "snd (DRFChooser_get_instance ex_drf ex_env (PStr ''a/b'') []) =
     [HttpGet ''http://api.example/items/a_2Fb/?format=json'']
   \<and> snd (DRFChooser_get_instance ex_drf ex_env (PStr ''a/b'') []) \<noteq>
     [HttpGet (api_base_url ex_drf @ ''a/b'' @ ''/?format=json'')]"
  by (simp add: DRFChooser_get_instance_def DRFChooser_url_def quote_char_def quote_chars_def
      hex_digit_def ex_defs)

subsection \<open>Other exceptions leave the method\<close>

text \<open>
  Claim C5. For a \<^verbatim>\<open>DRFChooser\<close>, in every call of \<^verbatim>\<open>get_value_data\<close> that
  sends the remote GET (the trace grows; by \<open>DRFChooser_request_iff\<close> these are the calls
  that reach \<^verbatim>\<open>get_instance\<close>): a network failure of the GET
  (\<^verbatim>\<open>RequestException\<close>) is raised by \<^verbatim>\<open>get_value_data\<close>, and so is a
  failure of the JSON decoder, whatever model is configured; so is any failure of the GET
  and any exception of \<^verbatim>\<open>get_instance\<close> that the \<^verbatim>\<open>except\<close> clause does
  not name, in particular every exception that is not an \<^verbatim>\<open>ObjectDoesNotExist\<close>. No
  dictionary is returned.
\<close>

theorem DRFChooser_other_exceptions_propagate:
  assumes "cls w = DRFChooser"
    and "snd (get_value_data w e v log) \<noteq> log"
  shows "(\<forall>r. requests_get_json e (DRFChooser_url w e v) = Inl (RequestException r) \<longrightarrow>
            get_value_data w e v log =
              (Inl (RequestException r), log @ [HttpGet (DRFChooser_url w e v)]))
         \<and> (requests_get_json e (DRFChooser_url w e v) = Inl JSONDecodeError \<longrightarrow>
            get_value_data w e v log =
              (Inl JSONDecodeError, log @ [HttpGet (DRFChooser_url w e v)]))
         \<and> (\<forall>x. requests_get_json e (DRFChooser_url w e v) = Inl x
              \<and> \<not> except_matches (model w) x \<longrightarrow>
            get_value_data w e v log = (Inl x, log @ [HttpGet (DRFChooser_url w e v)]))
         \<and> (\<forall>x log'. get_instance w e v log = (Inl x, log')
              \<and> \<not> except_matches (model w) x \<longrightarrow>
            get_value_data w e v log = (Inl x, log'))
         \<and> (\<forall>x log'. get_instance w e v log = (Inl x, log')
              \<and> \<not> is_ObjectDoesNotExist x \<longrightarrow>
            get_value_data w e v log = (Inl x, log'))"
proof -
  have reached: "v \<noteq> PNone \<and> \<not> is_model_instance w v"
    using assms(2) DRFChooser_request_iff [OF assms(1), of e v log]
    by (simp split: if_splits)
  have unmatched: "get_value_data w e v log = (Inl x, log')"
    if "get_instance w e v log = (Inl x, log')" "\<not> except_matches (model w) x" for x log'
    using that reached by (simp add: get_value_data_lookup)
  have failed: "get_value_data w e v log = (Inl x, log @ [HttpGet (DRFChooser_url w e v)])"
    if "requests_get_json e (DRFChooser_url w e v) = Inl x" "\<not> except_matches (model w) x"
    for x
  proof -
    have "get_instance w e v log = (Inl x, log @ [HttpGet (DRFChooser_url w e v)])"
      using that(1) assms(1) by (simp add: get_instance_def DRFChooser_get_instance_failure)
    then show ?thesis using that(2) by (rule unmatched)
  qed
  have network: "\<not> except_matches (model w) (RequestException r)" for r
    by (cases "model w") simp_all
  have decode: "\<not> except_matches (model w) JSONDecodeError"
    by (cases "model w") simp_all
  have other: "\<not> except_matches (model w) x" if "\<not> is_ObjectDoesNotExist x" for x
    using that except_matches_is_ObjectDoesNotExist by blast
  show ?thesis
    using failed network decode unmatched other by blast
qed

text \<open>
  The REST widget on the id \<^verbatim>\<open>a/b\<close>, for which the connection is refused, on item 10,
  whose body is not JSON, and on item 9, where \<^verbatim>\<open>get_instance\<close> raises
  \<^verbatim>\<open>KeyError\<close>.
\<close>

theorem DRFChooser_other_exceptions_propagate_witness:
  "cls ex_drf = DRFChooser
   \<and> snd (get_value_data ex_drf ex_env (PStr ''a/b'') []) \<noteq> []
   \<and> requests_get_json ex_env (DRFChooser_url ex_drf ex_env (PStr ''a/b'')) =
       Inl (RequestException ''connection refused'')
   \<and> get_value_data ex_drf ex_env (PStr ''a/b'') [] =
       (Inl (RequestException ''connection refused''),
        [HttpGet ''http://api.example/items/a_2Fb/?format=json''])
   \<and> snd (get_value_data ex_drf ex_env (PInt 10) []) \<noteq> []
   \<and> requests_get_json ex_env (DRFChooser_url ex_drf ex_env (PInt 10)) = Inl JSONDecodeError
   \<and> get_value_data ex_drf ex_env (PInt 10) [] =
       (Inl JSONDecodeError, [HttpGet ''http://api.example/items/10/?format=json''])
   \<and> snd (get_value_data ex_drf ex_env (PInt 9) []) \<noteq> []
   \<and> get_instance ex_drf ex_env (PInt 9) [] =
       (Inl (KeyError ''message''), [HttpGet ''http://api.example/items/9/?format=json''])
   \<and> \<not> except_matches (model ex_drf) (KeyError ''message'')
   \<and> \<not> is_ObjectDoesNotExist (KeyError ''message'')
   \<and> get_value_data ex_drf ex_env (PInt 9) [] =
       (Inl (KeyError ''message''), [HttpGet ''http://api.example/items/9/?format=json''])"
proof -
  have h1: "cls ex_drf = DRFChooser" by (simp add: ex_drf_def)
  have sent: "snd (get_value_data ex_drf ex_env v []) \<noteq> []"
    if "v \<noteq> PNone" "\<not> is_model_instance ex_drf v" for v
    using that by (simp add: DRFChooser_request_iff [OF h1])
  have n: "\<not> is_model_instance ex_drf v" for v
    by (simp add: is_model_instance_def ex_drf_def)
  have a2: "snd (get_value_data ex_drf ex_env (PStr ''a/b'') []) \<noteq> []"
    and b2: "snd (get_value_data ex_drf ex_env (PInt 10) []) \<noteq> []"
    and c2: "snd (get_value_data ex_drf ex_env (PInt 9) []) \<noteq> []"
    by (simp_all add: sent n)
  have ua: "DRFChooser_url ex_drf ex_env (PStr ''a/b'') =
      ''http://api.example/items/a_2Fb/?format=json''"
    by (simp add: DRFChooser_url_def quote_char_def quote_chars_def hex_digit_def ex_drf_def)
  have ub: "DRFChooser_url ex_drf ex_env (PInt 10) =
      ''http://api.example/items/10/?format=json''"
    by (simp add: DRFChooser_url_def str_int_def digits.simps ex_drf_def)
  have uc: "DRFChooser_url ex_drf ex_env (PInt 9) =
      ''http://api.example/items/9/?format=json''"
    by (simp add: DRFChooser_url_def str_int_def digits.simps ex_drf_def)
  have a3: "requests_get_json ex_env (DRFChooser_url ex_drf ex_env (PStr ''a/b'')) =
      Inl (RequestException ''connection refused'')"
    unfolding ua by (simp add: ex_env_def ex_requests_get_json_def)
  have b3: "requests_get_json ex_env (DRFChooser_url ex_drf ex_env (PInt 10)) =
      Inl JSONDecodeError"
    unfolding ub by (simp add: ex_env_def ex_requests_get_json_def)
  have c0: "requests_get_json ex_env (DRFChooser_url ex_drf ex_env (PInt 9)) =
      Inr (PDict [(''detail'', PStr ''Not found.'')])"
    unfolding uc by (simp add: ex_env_def ex_requests_get_json_def)
  have c3: "get_instance ex_drf ex_env (PInt 9) [] =
      (Inl (KeyError ''message''), [HttpGet ''http://api.example/items/9/?format=json''])"
    using h1 c0 by (simp add: get_instance_def DRFChooser_get_instance_def uc)
  have c4: "\<not> except_matches (model ex_drf) (KeyError ''message'')"
    by (simp add: ex_drf_def)
  have c5: "\<not> is_ObjectDoesNotExist (KeyError ''message'')" by simp
  note ta = DRFChooser_other_exceptions_propagate [OF h1 a2]
  note tb = DRFChooser_other_exceptions_propagate [OF h1 b2]
  note tc = DRFChooser_other_exceptions_propagate [OF h1 c2]
  from ta [THEN conjunct1, rule_format, OF a3]
  have a4: "get_value_data ex_drf ex_env (PStr ''a/b'') [] =
      (Inl (RequestException ''connection refused''),
       [HttpGet ''http://api.example/items/a_2Fb/?format=json''])"
    by (simp add: ua)
  from tb [THEN conjunct2, THEN conjunct1, rule_format, OF b3]
  have b4: "get_value_data ex_drf ex_env (PInt 10) [] =
      (Inl JSONDecodeError, [HttpGet ''http://api.example/items/10/?format=json''])"
    by (simp add: ub)
  from tc [THEN conjunct2, THEN conjunct2, THEN conjunct2, THEN conjunct2, rule_format,
      OF conjI [OF c3 c5]]
  have c6: "get_value_data ex_drf ex_env (PInt 9) [] =
      (Inl (KeyError ''message''), [HttpGet ''http://api.example/items/9/?format=json''])" .
  show ?thesis
    by (intro conjI) (rule h1 a2 a3 a4 b2 b3 b4 c2 c3 c4 c5 c6)+
qed

subsection \<open>No selection\<close>

text \<open>
  Claim C6, as amended. The description of a value is a dictionary with the fields
  \<^verbatim>\<open>value\<close>, \<^verbatim>\<open>title\<close> and \<^verbatim>\<open>edit_item_url\<close>, also when there is no
  selection: \<^verbatim>\<open>get_value_data(None)\<close> returns
  \<^verbatim>\<open>{'value': None, 'title': '', 'edit_item_url': None}\<close>, with no lookup.
\<close>

theorem no_selection_is_a_dictionary:
  "get_value_data w e PNone log =
     (Inr (PDict [(''value'', PNone), (''title'', PStr ''''), (''edit_item_url'', PNone)]), log)"
  by (simp add: get_value_data_def value_data_of_def empty_selection_def)

text \<open>It does not return \<^verbatim>\<open>None\<close>.\<close>

theorem no_selection_is_not_None_counterexample:
  "fst (get_value_data ex_drf ex_env PNone []) \<noteq> Inr PNone"
  by (simp add: get_value_data_def value_data_of_def empty_selection_def)

subsection \<open>The ORM lookup\<close>

text \<open>
  Claim C7. \<^verbatim>\<open>AdminChooser.get_instance(v)\<close> is
  \<^verbatim>\<open>self.model.objects.get(pk=v)\<close>: with a model configured it returns or raises what
  that one query by primary key returns or raises, and performs no other query; with no
  model the attribute access fails before any query.
\<close>

theorem AdminChooser_get_instance_one_query:
  "(\<forall>m. model w = Some m \<longrightarrow>
      AdminChooser_get_instance w e v log = (objects_get e m v, log @ [OrmGet m v]))
   \<and> (model w = None \<longrightarrow>
      AdminChooser_get_instance w e v log = (Inl (AttributeError ''objects''), log))"
  by (simp add: AdminChooser_get_instance_def)

theorem AdminChooser_get_instance_one_query_witness:
  "model ex_admin = Some ex_country
   \<and> AdminChooser_get_instance ex_admin ex_env (PStr ''FR'') [] =
       (Inr (PInstance ex_country (PStr ''FR'')), [OrmGet ex_country (PStr ''FR'')])
   \<and> model ex_admin_no_model = None
   \<and> AdminChooser_get_instance ex_admin_no_model ex_env (PStr ''FR'') [] =
       (Inl (AttributeError ''objects''), [])"
proof -
  have h1: "model ex_admin = Some ex_country" by (simp add: ex_admin_def)
  have h2: "model ex_admin_no_model = None" by (simp add: ex_admin_no_model_def)
  have g: "objects_get ex_env ex_country (PStr ''FR'') = Inr (PInstance ex_country (PStr ''FR''))"
    by (simp add: ex_env_def ex_objects_get_def)
  from AdminChooser_get_instance_one_query [of ex_admin ex_env "PStr ''FR''" "[]"] h1 g
  have c1: "AdminChooser_get_instance ex_admin ex_env (PStr ''FR'') [] =
      (Inr (PInstance ex_country (PStr ''FR'')), [OrmGet ex_country (PStr ''FR'')])"
    by simp
  from AdminChooser_get_instance_one_query [of ex_admin_no_model ex_env "PStr ''FR''" "[]"] h2
  have c2: "AdminChooser_get_instance ex_admin_no_model ex_env (PStr ''FR'') [] =
      (Inl (AttributeError ''objects''), [])"
    by simp
  from h1 h2 c1 c2 show ?thesis by simp
qed

subsection \<open>The empty string of a form\<close>

text \<open>
  Claim C8. When the raw value of the widget in the submitted data is the empty string,
  \<^verbatim>\<open>value_from_datadict\<close> returns \<^verbatim>\<open>None\<close>; any other raw value is returned
  unchanged, and so is the \<^verbatim>\<open>None\<close> of a name that the data does not hold.
\<close>

theorem value_from_datadict_empty_string:
  "(data name = Some (PStr '''') \<longrightarrow> value_from_datadict data files name = PNone)
   \<and> (\<forall>r. data name = Some r \<and> r \<noteq> PStr '''' \<longrightarrow> value_from_datadict data files name = r)
   \<and> (data name = None \<longrightarrow> value_from_datadict data files name = PNone)"
  by (simp add: value_from_datadict_def Widget_value_from_datadict_def)

theorem value_from_datadict_empty_string_witness:
  "[''country'' \<mapsto> PStr '''', ''city'' \<mapsto> PStr ''12''] ''country'' = Some (PStr '''')
   \<and> value_from_datadict [''country'' \<mapsto> PStr '''', ''city'' \<mapsto> PStr ''12''] Map.empty ''country''
       = PNone
   \<and> [''country'' \<mapsto> PStr '''', ''city'' \<mapsto> PStr ''12''] ''city'' = Some (PStr ''12'')
   \<and> PStr ''12'' \<noteq> PStr ''''
   \<and> value_from_datadict [''country'' \<mapsto> PStr '''', ''city'' \<mapsto> PStr ''12''] Map.empty ''city''
       = PStr ''12''
   \<and> [''country'' \<mapsto> PStr '''', ''city'' \<mapsto> PStr ''12''] ''street'' = None
   \<and> value_from_datadict [''country'' \<mapsto> PStr '''', ''city'' \<mapsto> PStr ''12''] Map.empty ''street''
       = PNone"
proof -
  let ?data = "[''country'' \<mapsto> PStr '''', ''city'' \<mapsto> PStr ''12'']"
  have h1: "?data ''country'' = Some (PStr '''')" by simp
  have h2: "?data ''city'' = Some (PStr ''12'')" by simp
  have h3: "PStr ''12'' \<noteq> PStr ''''" by simp
  have h4: "?data ''street'' = None" by simp
  from value_from_datadict_empty_string [of ?data "''country''" Map.empty] h1
  have c1: "value_from_datadict ?data Map.empty ''country'' = PNone" by blast
  from value_from_datadict_empty_string [of ?data "''city''" Map.empty] h2 h3
  have c2: "value_from_datadict ?data Map.empty ''city'' = PStr ''12''" by blast
  from value_from_datadict_empty_string [of ?data "''street''" Map.empty] h4
  have c3: "value_from_datadict ?data Map.empty ''street'' = PNone" by blast
  from h1 h2 h3 h4 c1 c2 c3 show ?thesis by blast
qed

subsection \<open>A value that is already an instance\<close>

text \<open>
  Claim C9. When the value is an instance of the configured model,
  \<^verbatim>\<open>get_value_data\<close> performs no lookup (the trace is unchanged, whatever the
  result), and whenever \<^verbatim>\<open>get_edit_item_url\<close> of the instance returns, the dictionary
  returned has the primary key of the instance as \<^verbatim>\<open>value\<close>, and the title and the
  edit URL of that same instance.
\<close>

theorem model_instance_is_not_looked_up:
  assumes "model w = Some m"
    and "issubclass c m"
  shows "snd (get_value_data w e (PInstance c k) log) = log
         \<and> (\<forall>url. get_edit_item_url w e (PInstance c k) = Inr url \<longrightarrow>
              fst (get_value_data w e (PInstance c k) log) =
                Inr (PDict [(''value'', k), (''title'', PStr (get_title e (PInstance c k))),
                            (''edit_item_url'', url)]))"
proof -
  have "is_model_instance w (PInstance c k)"
    using assms by (simp add: is_model_instance_def)
  then have "get_value_data w e (PInstance c k) log =
      (value_data_of w e (PInstance c k) k, log)"
    by (simp add: get_value_data_def)
  then show ?thesis
    by (simp add: value_data_of_instance)
qed

theorem model_instance_is_not_looked_up_witness:
  "model ex_admin = Some ex_country
   \<and> issubclass ex_country ex_country
   \<and> get_edit_item_url ex_admin ex_env (PInstance ex_country (PStr ''XX'')) =
       Inr (PStr ''/countries/XX/edit/'')
   \<and> get_value_data ex_admin ex_env (PInstance ex_country (PStr ''XX'')) [] =
       (Inr (PDict [(''value'', PStr ''XX''), (''title'', PStr ''XX''),
                    (''edit_item_url'', PStr ''/countries/XX/edit/'')]), [])"
proof -
  have h1: "model ex_admin = Some ex_country" by (simp add: ex_admin_def)
  have h2: "issubclass ex_country ex_country" by (simp add: issubclass_def)
  have h3: "get_edit_item_url ex_admin ex_env (PInstance ex_country (PStr ''XX'')) =
      Inr (PStr ''/countries/XX/edit/'')"
    by (simp add: get_edit_item_url_def AdminChooser_get_edit_item_url_def ex_admin_def
        ex_env_def quote_char_def quote_chars_def)
  have t: "get_title ex_env (PInstance ex_country (PStr ''XX'')) = ''XX''"
    by (simp add: get_title_def ex_env_def)
  from model_instance_is_not_looked_up [OF h1 h2, of ex_env "PStr ''XX''" "[]"] h3 t
  have "get_value_data ex_admin ex_env (PInstance ex_country (PStr ''XX'')) [] =
      (Inr (PDict [(''value'', PStr ''XX''), (''title'', PStr ''XX''),
                   (''edit_item_url'', PStr ''/countries/XX/edit/'')]), [])"
    by (simp add: prod_eq_iff)
  with h1 h2 h3 show ?thesis by simp
qed

subsection \<open>The shape of every dictionary returned\<close>

text \<open>
  Claim C10, as amended. Every dictionary \<^verbatim>\<open>get_value_data\<close> returns has exactly the
  keys \<^verbatim>\<open>value\<close>, \<^verbatim>\<open>title\<close> and \<^verbatim>\<open>edit_item_url\<close>, in this order, and a
  string as title. When its \<^verbatim>\<open>value\<close> is \<^verbatim>\<open>None\<close> and the value given was not
  an instance of the configured model whose primary key is \<^verbatim>\<open>None\<close>, it is the empty
  selection: the title is the empty string and the edit URL is \<^verbatim>\<open>None\<close>.
\<close>

theorem value_data_shape:
  assumes "fst (get_value_data w e v log) = Inr p"
  shows "(\<exists>a t u. p = PDict [(''value'', a), (''title'', PStr t), (''edit_item_url'', u)])
         \<and> (py_getitem p ''value'' = Inr PNone
              \<and> \<not> (is_model_instance w v \<and> py_pk v = Inr PNone) \<longrightarrow>
            p = empty_selection)"
proof -
  consider (none) "v = PNone"
    | (given) "v \<noteq> PNone" "is_model_instance w v"
    | (lookup) "v \<noteq> PNone" "\<not> is_model_instance w v"
    by blast
  then show ?thesis
  proof cases
    case none
    with assms have "p = empty_selection"
      by (simp add: get_value_data_def value_data_of_None)
    then show ?thesis by (simp add: empty_selection_def)
  next
    case given
    then obtain c k where v: "v = PInstance c k"
      by (cases v) (auto simp: is_model_instance_def split: option.splits)
    with given assms have "value_data_of w e v k = Inr p"
      by (simp add: get_value_data_def)
    from value_data_of_shape [OF this] v
    obtain u where "p = PDict [(''value'', k), (''title'', PStr (get_title e v)),
        (''edit_item_url'', u)]"
      by auto
    with given v show ?thesis by auto
  next
    case lookup
    obtain r log' where r: "get_instance w e v log = (r, log')"
      by (cases "get_instance w e v log")
    show ?thesis
    proof (cases r)
      case (Inl x)
      with lookup r assms have "p = empty_selection"
        by (simp add: get_value_data_lookup value_data_of_None split: if_splits)
      then show ?thesis by (simp add: empty_selection_def)
    next
      case (Inr found)
      with lookup r assms have "value_data_of w e found v = Inr p"
        by (simp add: get_value_data_lookup)
      from value_data_of_shape [OF this] lookup(1) show ?thesis
        by (auto simp: empty_selection_def)
    qed
  qed
qed

text \<open>The ORM widget on a primary key that has no row.\<close>

theorem value_data_shape_witness:
  "fst (get_value_data ex_admin ex_env (PStr ''XX'') []) = Inr empty_selection
   \<and> (\<exists>a t u. empty_selection =
         PDict [(''value'', a), (''title'', PStr t), (''edit_item_url'', u)])
   \<and> py_getitem empty_selection ''value'' = Inr PNone
   \<and> \<not> (is_model_instance ex_admin (PStr ''XX'') \<and> py_pk (PStr ''XX'') = Inr PNone)"
proof -
  have h: "fst (get_value_data ex_admin ex_env (PStr ''XX'') []) = Inr empty_selection"
    by (simp add: get_value_data_def is_model_instance_def get_instance_def
        AdminChooser_get_instance_def issubclass_def value_data_of_def ex_defs)
  have g: "py_getitem empty_selection ''value'' = Inr PNone"
    by (simp add: empty_selection_def)
  have n: "\<not> (is_model_instance ex_admin (PStr ''XX'') \<and> py_pk (PStr ''XX'') = Inr PNone)"
    by simp
  from value_data_shape [OF h] g n show ?thesis using h by blast
qed

text \<open>
  The exception is real. For an unsaved \<^verbatim>\<open>Country\<close> instance, whose primary key is
  \<^verbatim>\<open>None\<close>, the dictionary has the value \<^verbatim>\<open>None\<close> and the title of the
  instance.
\<close>

theorem unsaved_instance_counterexample:
  "get_value_data ex_admin_plain ex_env (PInstance ex_country PNone) [] =
     (Inr (PDict [(''value'', PNone), (''title'', PStr ''Country object (None)''),
                  (''edit_item_url'', PNone)]), [])
   \<and> PStr ''Country object (None)'' \<noteq> PStr ''''"
  by (simp add: get_value_data_def is_model_instance_def issubclass_def value_data_of_def
      get_title_def get_edit_item_url_def AdminChooser_get_edit_item_url_def ex_defs)

end
